theory Spec2Isabelle
  imports Complex_Main "HOL-Library.Word"
begin

section \<open>JavaScript strings and numbers used by the service\<close>

text \<open>
  The watermark renderer builds its overlay with \<^verbatim>\<open>String.prototype.replace\<close> called
  with a string pattern and a string replacement. That call replaces the first occurrence
  of the pattern only, and the replacement is not taken literally: the sequences
  \<^verbatim>\<open>$$\<close>, \<^verbatim>\<open>$&\<close>, \<^verbatim>\<open>$`\<close> and \<^verbatim>\<open>$'\<close> stand for a dollar sign, the matched text, the text
  before the match and the text after it. A string pattern has no capture groups, so
  \<^verbatim>\<open>$1\<close> .. \<^verbatim>\<open>$99\<close> and \<^verbatim>\<open>$<\<close> stay as they are written.
\<close>

definition starts_with :: "string \<Rightarrow> string \<Rightarrow> bool" where
  "starts_with pat s = (take (length pat) s = pat)"

text \<open>\<open>find_first pat s\<close> splits \<open>s\<close> around the leftmost occurrence of \<open>pat\<close>.\<close>

fun find_first :: "string \<Rightarrow> string \<Rightarrow> (string \<times> string) option" where
  "find_first pat [] = (if pat = [] then Some ([], []) else None)"
| "find_first pat (c # cs) =
     (if starts_with pat (c # cs) then Some ([], drop (length pat) (c # cs))
      else (case find_first pat cs of
              None \<Rightarrow> None
            | Some (pre, post) \<Rightarrow> Some (c # pre, post)))"

fun get_substitution :: "string \<Rightarrow> string \<Rightarrow> string \<Rightarrow> string \<Rightarrow> string" where
  "get_substitution matched pre post [] = []"
| "get_substitution matched pre post [c] = [c]"
| "get_substitution matched pre post (c # d # rest) =
     (if c = CHR ''$'' \<and> d = CHR ''$'' then CHR ''$'' # get_substitution matched pre post rest
      else if c = CHR ''$'' \<and> d = CHR ''&'' then matched @ get_substitution matched pre post rest
      else if c = CHR ''$'' \<and> d = CHR 0x60 then pre @ get_substitution matched pre post rest
      else if c = CHR ''$'' \<and> d = CHR 0x27 then post @ get_substitution matched pre post rest
      else c # get_substitution matched pre post (d # rest))"

text \<open>
  A replacement is free of patterns when no dollar sign in it is followed by one of the
  four characters that make a pattern; it then stands for itself.
\<close>

definition pattern_char :: "char \<Rightarrow> bool" where
  "pattern_char d = (d = CHR ''$'' \<or> d = CHR ''&'' \<or> d = CHR 0x60 \<or> d = CHR 0x27)"

fun pattern_free :: "string \<Rightarrow> bool" where
  "pattern_free [] = True"
| "pattern_free [c] = True"
| "pattern_free (c # d # rest) = (\<not> (c = CHR ''$'' \<and> pattern_char d) \<and> pattern_free (d # rest))"

definition js_replace :: "string \<Rightarrow> string \<Rightarrow> string \<Rightarrow> string" where
  "js_replace pat replacement s =
     (case find_first pat s of
        None \<Rightarrow> s
      | Some (pre, post) \<Rightarrow> pre @ get_substitution pat pre post replacement @ post)"

text \<open>
  Numbers interpolated into a template literal are printed in decimal. The renderer prints
  \<open>height - 192\<close>, an integer, and \<open>width / 2\<close>, an integer or an integer and a half; both
  are exact in a double for every image size the image library accepts, so the model
  computes them as rationals and prints the finite decimal expansion.
\<close>

definition digit_char :: "nat \<Rightarrow> char" where
  "digit_char d = ''0123456789'' ! (d mod 10)"

fun nat_to_string :: "nat \<Rightarrow> string" where
  "nat_to_string n =
     (if n < 10 then [digit_char n] else nat_to_string (n div 10) @ [digit_char (n mod 10)])"

declare nat_to_string.simps [simp del]

fun fraction_digits :: "nat \<Rightarrow> rat \<Rightarrow> string" where
  "fraction_digits 0 f = []"
| "fraction_digits (Suc k) f =
     (if f = 0 then []
      else (let d = nat \<lfloor>10 * f\<rfloor>
            in digit_char d # fraction_digits k (10 * f - of_nat d)))"

definition number_to_string :: "rat \<Rightarrow> string" where
  "number_to_string q =
     (let a = \<bar>q\<bar>; i = nat \<lfloor>a\<rfloor>; f = a - of_nat i
      in (if q < 0 then ''-'' else []) @ nat_to_string i @
         (if f = 0 then [] else ''.'' @ fraction_digits 20 f))"

section \<open>The watermark renderer\<close>

text \<open>
  \<^verbatim>\<open>addWatermarkAndSave(imageBuffer, watermarkText)\<close> calls the image library four times
  and the file system once. What those calls answer is outside the repository, so it is a
  parameter of the model: whether the bytes decode and to which dimensions, what the
  template file holds, whether the overlay rasterises and whether the composite encodes.
  The buffer that the function returns is kept symbolically, as the pipeline that produced
  it: the source bytes, the composited overlays with their offsets, and the output format.
\<close>

type_synonym byte = "8 word"

record metadata =
  width :: nat
  height :: nat

datatype image_format = JPEG nat

record overlay =
  ov_svg :: string
  ov_width :: nat
  ov_height :: nat
  ov_top :: int
  ov_left :: int

record watermarked =
  wm_source :: "byte list"
  wm_composite :: "overlay list"
  wm_format :: image_format

datatype failure =
    UndecodableImage
  | TemplateUnreadable
  | OverlayRejected
  | EncodingFailed
  | S3UploadFailed string

record renderer_env =
  sharp_metadata :: "byte list \<Rightarrow> metadata option"
  read_template :: "string option"
  sharp_svg_ok :: "string \<Rightarrow> nat \<Rightarrow> nat \<Rightarrow> bool"
  sharp_encode_ok :: "watermarked \<Rightarrow> bool"

definition positionBottom :: "metadata \<Rightarrow> int" where
  "positionBottom m = int (height m) - 2 * 96"

definition positionLeft :: "metadata \<Rightarrow> rat" where
  "positionLeft m = of_nat (width m) / 2"

text \<open>The template literal of the second \<^verbatim>\<open>replace\<close>, with its line breaks and indentation.\<close>

definition text_element :: "rat \<Rightarrow> int \<Rightarrow> string \<Rightarrow> string" where
  \<open>text_element x y watermarkText =
     ''<text x="'' @ number_to_string x @ ''" y="'' @ number_to_string (of_int y) @
     ''" font-family="NotoSerifDisplay" font-weight="bold" font-size="120" fill="white" text-anchor="middle">'' @
     [CHR 0x0A] @ ''        '' @ watermarkText @
     [CHR 0x0A] @ ''      </text>'' @
     [CHR 0x0A] @ ''      </svg>''\<close>

definition updatedSvgString :: "metadata \<Rightarrow> string \<Rightarrow> string \<Rightarrow> string" where
  "updatedSvgString m watermarkText template =
     js_replace ''</svg>'' (text_element (positionLeft m) (positionBottom m) watermarkText)
       (js_replace ''{{PRODUCT_NAME}}'' watermarkText template)"

definition addWatermarkAndSave ::
  "renderer_env \<Rightarrow> byte list \<Rightarrow> string \<Rightarrow> failure + watermarked" where
  "addWatermarkAndSave env imageBuffer watermarkText =
     (case sharp_metadata env imageBuffer of
        None \<Rightarrow> Inl UndecodableImage
      | Some m \<Rightarrow>
          (case read_template env of
             None \<Rightarrow> Inl TemplateUnreadable
           | Some template \<Rightarrow>
               (let finalSvg = updatedSvgString m watermarkText template;
                    resizedSvg = \<lparr>ov_svg = finalSvg, ov_width = width m, ov_height = height m,
                                  ov_top = 0, ov_left = 0\<rparr>;
                    result = \<lparr>wm_source = imageBuffer, wm_composite = [resizedSvg],
                              wm_format = JPEG 90\<rparr>
                in if \<not> sharp_svg_ok env finalSvg (width m) (height m) then Inl OverlayRejected
                   else if \<not> sharp_encode_ok env result then Inl EncodingFailed
                   else Inr result)))"

section \<open>JSON values and the Product Record\<close>

datatype json = JStr string | JArr "json list" | JObj "(string \<times> json) list"

definition get_field :: "string \<Rightarrow> json \<Rightarrow> json option" where
  "get_field k j = (case j of JObj kvs \<Rightarrow> map_of kvs k | _ \<Rightarrow> None)"

definition array_length :: "json \<Rightarrow> nat option" where
  "array_length j = (case j of JArr xs \<Rightarrow> Some (length xs) | _ \<Rightarrow> None)"

text \<open>\<open>entries k j\<close> is the number of entries of the array \<open>j.k\<close>, if \<open>j\<close> has such a field.\<close>

definition entries :: "string \<Rightarrow> json \<Rightarrow> nat option" where
  "entries k j = (case get_field k j of None \<Rightarrow> None | Some v \<Rightarrow> array_length v)"

text \<open>
  The schema of the model \<^verbatim>\<open>Image\<close> declares two fields, \<^verbatim>\<open>productName\<close> (a string)
  and \<^verbatim>\<open>Jewellery\<close> (an array of strings). Neither carries a uniqueness constraint.
  The identifier and version fields that the document library adds on its own are not
  modelled.
\<close>

record product =
  productName :: string
  Jewellery :: "string list"

definition product_json :: "product \<Rightarrow> json" where
  "product_json p =
     JObj [(''productName'', JStr (productName p)),
           (''Jewellery'', JArr (map JStr (Jewellery p)))]"

type_synonym collection = "product list"

text \<open>\<^verbatim>\<open>Image.findOne({ productName })\<close>: the first record with that name.\<close>

definition findOne :: "string \<Rightarrow> collection \<Rightarrow> product option" where
  "findOne name coll = find (\<lambda>p. productName p = name) coll"

text \<open>
  \<^verbatim>\<open>Image.findOneAndUpdate({ productName }, { $push: { Jewellery: { $each: imageUrls } } },
  { new: true, upsert: true })\<close>: the first record with that name gets the locations
  appended; if there is none, a record with that name and those locations is inserted.
  The updated or inserted record is returned with the new collection.
\<close>

fun findOneAndUpdate :: "string \<Rightarrow> string list \<Rightarrow> collection \<Rightarrow> product \<times> collection" where
  "findOneAndUpdate name imageUrls [] =
     (\<lparr>productName = name, Jewellery = imageUrls\<rparr>,
      [\<lparr>productName = name, Jewellery = imageUrls\<rparr>])"
| "findOneAndUpdate name imageUrls (p # ps) =
     (if productName p = name
      then (p\<lparr>Jewellery := Jewellery p @ imageUrls\<rparr>, p\<lparr>Jewellery := Jewellery p @ imageUrls\<rparr> # ps)
      else (case findOneAndUpdate name imageUrls ps of (updated, ps') \<Rightarrow> (updated, p # ps')))"

section \<open>The upload handler\<close>

text \<open>
  The handler of \<^verbatim>\<open>POST /api/images/upload\<close> sees the request after the multipart
  middleware has run. \<open>upload_handler\<close> is the handler from the validation on, for a
  request whose \<^verbatim>\<open>req.body\<close> is an object: it reads \<^verbatim>\<open>req.body.productName\<close> and
  \<^verbatim>\<open>req.files\<close>, either of which may be absent. The middleware and the case of a
  request without a body are in the section on the route as a whole. The object store,
  the clock and the document store are parameters. The handler returns its response
  together with the writes it issued and the collection it leaves behind.

  \<^verbatim>\<open>productName\<close> is a text field that the upload form sends once; the model takes it
  as an optional string, and a request that repeats the field is outside it.

  The elements of \<^verbatim>\<open>uploadPromises\<close> run independently of each other, and each runs to
  its end whether or not another one rejects; so the writes of a request are the writes of
  all its files, listed here in the order of the files. Which rejection reaches
  \<^verbatim>\<open>Promise.all\<close> first does not matter to the handler, which answers every rejection
  in the same way. From the validation on, nothing outside the two inner handlers can
  throw; the outermost \<^verbatim>\<open>catch\<close> is reached only by the first statement of the
  handler, and is part of the route below.
\<close>

record upload_file =
  originalname :: string
  mimetype :: string
  buffer :: "byte list"

record request =
  body_productName :: "string option"
  req_files :: "upload_file list option"

record s3_params =
  Bucket :: "string option"
  Key :: string
  Body :: watermarked
  ContentType :: string

datatype event =
    S3Upload s3_params "string option"
  | MongoUpdate string "string list" bool

record response =
  status :: nat
  json_body :: json

record service_env =
  sharp_env :: renderer_env
  bucket_name :: "string option"
  date_now :: "nat \<Rightarrow> nat"
  s3_upload :: "nat \<Rightarrow> s3_params \<Rightarrow> string option"
  mongo_update_ok :: bool
  mongo_find_ok :: bool

definition error_response :: "nat \<Rightarrow> string \<Rightarrow> response" where
  "error_response code msg = \<lparr>status = code, json_body = JObj [(''error'', JStr msg)]\<rparr>"

text \<open>
  One element of \<^verbatim>\<open>uploadPromises\<close>: the file with index \<open>i\<close> is watermarked and, if
  that succeeds, sent to the object store. A rejection of the store is rethrown as an
  error that names the file.
\<close>

definition s3_params_of :: "service_env \<Rightarrow> nat \<Rightarrow> upload_file \<Rightarrow> watermarked \<Rightarrow> s3_params" where
  "s3_params_of env i f watermarkedBuffer =
     \<lparr>Bucket = bucket_name env,
      Key = ''products/'' @ nat_to_string (date_now env i) @ ''-'' @ originalname f,
      Body = watermarkedBuffer,
      ContentType = mimetype f\<rparr>"

definition upload_one ::
  "service_env \<Rightarrow> string \<Rightarrow> nat \<Rightarrow> upload_file \<Rightarrow> (failure + string) \<times> event list" where
  "upload_one env name i f =
     (case addWatermarkAndSave (sharp_env env) (buffer f) name of
        Inl e \<Rightarrow> (Inl e, [])
      | Inr watermarkedBuffer \<Rightarrow>
          (let params = s3_params_of env i f watermarkedBuffer
           in (case s3_upload env i params of
                 None \<Rightarrow> (Inl (S3UploadFailed (originalname f)), [S3Upload params None])
               | Some location \<Rightarrow> (Inr location, [S3Upload params (Some location)]))))"

text \<open>\<^verbatim>\<open>Promise.all\<close>: all results in order, or a rejection if any element rejects.\<close>

fun promise_all :: "('e + 'a) list \<Rightarrow> 'e + 'a list" where
  "promise_all [] = Inr []"
| "promise_all (Inl e # rs) = Inl e"
| "promise_all (Inr x # rs) = (case promise_all rs of Inl e \<Rightarrow> Inl e | Inr xs \<Rightarrow> Inr (x # xs))"

definition validation_error :: response where
  "validation_error = error_response 400 ''Product name and at least one image are required.''"

definition upload_all ::
  "service_env \<Rightarrow> string \<Rightarrow> upload_file list \<Rightarrow> ((failure + string) \<times> event list) list" where
  "upload_all env name fs = map (\<lambda>(i, f). upload_one env name i f) (enumerate 0 fs)"

definition upload_handler ::
  "service_env \<Rightarrow> collection \<Rightarrow> request \<Rightarrow> response \<times> event list \<times> collection" where
  "upload_handler env coll req =
     (case body_productName req of
        None \<Rightarrow> (validation_error, [], coll)
      | Some name \<Rightarrow>
          if name = [] then (validation_error, [], coll)
          else (case req_files req of
                  None \<Rightarrow> (validation_error, [], coll)
                | Some fs \<Rightarrow>
                    if length fs = 0 then (validation_error, [], coll)
                    else (let uploads = upload_all env name fs;
                              writes = concat (map snd uploads)
                          in (case promise_all (map fst uploads) of
                                Inl uploadError \<Rightarrow>
                                  (error_response 500 ''S3 upload failed. Check server logs for details.'',
                                   writes, coll)
                              | Inr imageUrls \<Rightarrow>
                                  if \<not> mongo_update_ok env
                                  then (error_response 500 ''Failed to save image URLs to the database.'',
                                        writes @ [MongoUpdate name imageUrls False], coll)
                                  else (case findOneAndUpdate name imageUrls coll of
                                          (updatedProduct, coll') \<Rightarrow>
                                            (\<lparr>status = 201,
                                              json_body = JObj
                                                [(''message'', JStr ''Images uploaded and saved successfully!''),
                                                 (''product'', product_json updatedProduct)]\<rparr>,
                                             writes @ [MongoUpdate name imageUrls True], coll'))))))"

section \<open>The fetch route\<close>

definition get_handler :: "service_env \<Rightarrow> collection \<Rightarrow> string \<Rightarrow> response" where
  "get_handler env coll name =
     (if \<not> mongo_find_ok env then error_response 500 ''Failed to fetch images''
      else (case findOne name coll of
              None \<Rightarrow> error_response 404 ''Product not found''
            | Some images \<Rightarrow> \<lparr>status = 200, json_body = product_json images\<rparr>))"

section \<open>The upload route as a whole\<close>

text \<open>
  Line 96 puts the multipart middleware \<^verbatim>\<open>upload.array('images', 10)\<close> in front of the
  handler. The middleware is the library's, not the repository's; the model takes from it
  what the route depends on. For a multipart request it collects the text fields into
  \<^verbatim>\<open>req.body\<close> and the file parts into \<^verbatim>\<open>req.files\<close>, a list that is empty when no
  file part arrives, and it fails the request with
  the error \<^verbatim>\<open>LIMIT_UNEXPECTED_FILE\<close> when a file part arrives under another field than
  \<^verbatim>\<open>images\<close> or when an eleventh file part arrives. A request that is not multipart
  passes untouched, without \<^verbatim>\<open>req.files\<close>; whether it reaches the handler with an
  empty object or with nothing as \<^verbatim>\<open>req.body\<close> depends on the body parser, so both are
  requests of the model.

  An error of the middleware goes to the default error handler of the framework, which
  answers with status 500 and a page of its own; the handler of the route does not run.
  A request without \<^verbatim>\<open>req.body\<close> makes the first statement of the handler,
  \<^verbatim>\<open>const { productName } = req.body\<close>, throw; the outermost \<^verbatim>\<open>catch\<close> of lines
  156 to 159 answers it.
\<close>

datatype multer_error = LIMIT_UNEXPECTED_FILE

datatype upload_request =
    Multipart "string option" "(string \<times> upload_file) list"
  | NotMultipart "string option option"

definition multer_array ::
  "string \<Rightarrow> nat \<Rightarrow> (string \<times> upload_file) list \<Rightarrow> multer_error + upload_file list" where
  "multer_array fieldname maxCount parts =
     (if list_ex (\<lambda>part. fst part \<noteq> fieldname) parts then Inl LIMIT_UNEXPECTED_FILE
      else if maxCount < length parts then Inl LIMIT_UNEXPECTED_FILE
      else Inr (map snd parts))"

text \<open>
  What reaches the handler: nothing if the middleware fails, otherwise \<^verbatim>\<open>req.body\<close> and
  \<^verbatim>\<open>req.files\<close>, where \<open>None\<close> stands for a request without \<^verbatim>\<open>req.body\<close>.
\<close>

definition multer_stage :: "upload_request \<Rightarrow> multer_error + request option" where
  "multer_stage rq =
     (case rq of
        Multipart name parts \<Rightarrow>
          (case multer_array ''images'' 10 parts of
             Inl e \<Rightarrow> Inl e
           | Inr fs \<Rightarrow> Inr (Some \<lparr>body_productName = name, req_files = Some fs\<rparr>))
      | NotMultipart None \<Rightarrow> Inr None
      | NotMultipart (Some name) \<Rightarrow> Inr (Some \<lparr>body_productName = name, req_files = None\<rparr>))"

datatype answer = Handled response | DefaultErrorPage nat

definition upload_route ::
  "service_env \<Rightarrow> collection \<Rightarrow> upload_request \<Rightarrow> answer \<times> event list \<times> collection" where
  "upload_route env coll rq =
     (case multer_stage rq of
        Inl e \<Rightarrow> (DefaultErrorPage 500, [], coll)
      | Inr None \<Rightarrow>
          (Handled (error_response 500
             ''Failed to upload and save images. Check server logs for details.''), [], coll)
      | Inr (Some req) \<Rightarrow>
          (case upload_handler env coll req of
             (res, writes, coll') \<Rightarrow> (Handled res, writes, coll')))"

text \<open>The file parts and the product name that a request carries.\<close>

definition sent_files :: "upload_request \<Rightarrow> (string \<times> upload_file) list" where
  "sent_files rq = (case rq of Multipart name parts \<Rightarrow> parts | NotMultipart b \<Rightarrow> [])"

definition sent_productName :: "upload_request \<Rightarrow> string option" where
  "sent_productName rq =
     (case rq of
        Multipart name parts \<Rightarrow> name
      | NotMultipart None \<Rightarrow> None
      | NotMultipart (Some name) \<Rightarrow> name)"

section \<open>The documents in the store\<close>

text \<open>
  The document store holds documents, lists of fields, and knows no schema. The update
  that the handler issues in lines 140 to 144 filters on the field \<^verbatim>\<open>productName\<close> and
  pushes onto the field \<^verbatim>\<open>Jewellery\<close>. \<open>push_each\<close> is \<^verbatim>\<open>$push\<close> with \<^verbatim>\<open>$each\<close>
  on one document: it appends to the array under the field, creates the field if the
  document has none, and fails if the field holds something else. \<open>update_or_insert\<close>
  updates the first document whose filter field has the given value and, as
  \<^verbatim>\<open>upsert: true\<close> asks, inserts a document made of the filter and of the pushed values
  if there is none. As in the record above, the identifier and the version that the
  document library adds to every document are left out.
\<close>

type_synonym document = "(string \<times> json) list"





text \<open>The document of a record of the collection.\<close>

definition product_document :: "product \<Rightarrow> document" where
  "product_document p =
     [(''productName'', JStr (productName p)), (''Jewellery'', JArr (map JStr (Jewellery p)))]"

section \<open>Observations on a run\<close>

text \<open>The locations that the object store returned, read off the writes of a request.\<close>

fun returned_locations :: "event list \<Rightarrow> string list" where
  "returned_locations [] = []"
| "returned_locations (S3Upload p (Some location) # es) = location # returned_locations es"
| "returned_locations (e # es) = returned_locations es"

text \<open>The location list stored for a product name; empty if the name has no record.\<close>

definition images_of :: "string \<Rightarrow> collection \<Rightarrow> string list" where
  "images_of name coll = (case findOne name coll of None \<Rightarrow> [] | Some p \<Rightarrow> Jewellery p)"

text \<open>The number of entries of the array \<open>product.k\<close> in the body of a response.\<close>

definition product_entries :: "string \<Rightarrow> response \<Rightarrow> nat option" where
  "product_entries k res =
     (case get_field ''product'' (json_body res) of None \<Rightarrow> None | Some p \<Rightarrow> entries k p)"


section \<open>A concrete environment\<close>

text \<open>
  An image library that decodes every non-empty buffer as a 301 by 400 image, a template
  that is an empty drawing, an object store that answers with the address of the object,
  and a document store that is up. The variants differ in one answer each.
\<close>

definition example_sharp :: renderer_env where
  "example_sharp =
     \<lparr>sharp_metadata = (\<lambda>b. if b = [] then None else Some \<lparr>width = 301, height = 400\<rparr>),
      read_template = Some ''<svg></svg>'',
      sharp_svg_ok = (\<lambda>svg w h. True),
      sharp_encode_ok = (\<lambda>out. True)\<rparr>"

definition example_env :: service_env where
  "example_env =
     \<lparr>sharp_env = example_sharp,
      bucket_name = Some ''jewels'',
      date_now = (\<lambda>i. 1700 + i),
      s3_upload = (\<lambda>i p. Some (''https://jewels.s3.amazonaws.com/'' @ Key p)),
      mongo_update_ok = True,
      mongo_find_ok = True\<rparr>"

definition rejecting_env :: service_env where
  "rejecting_env =
     example_env\<lparr>s3_upload := (\<lambda>i p. if i = 1 then None else s3_upload example_env i p)\<rparr>"

definition offline_env :: service_env where
  "offline_env = example_env\<lparr>mongo_find_ok := False\<rparr>"

definition ring_front :: upload_file where
  "ring_front = \<lparr>originalname = ''front.png'', mimetype = ''image/png'',
                  buffer = [0x89, 0x50, 0x4E, 0x47]\<rparr>"

definition ring_side :: upload_file where
  "ring_side = \<lparr>originalname = ''side.jpg'', mimetype = ''image/jpeg'',
                 buffer = [0xFF, 0xD8, 0xFF]\<rparr>"

definition broken_file :: upload_file where
  "broken_file = \<lparr>originalname = ''broken.jpg'', mimetype = ''image/jpeg'', buffer = []\<rparr>"

definition ring_request :: request where
  "ring_request = \<lparr>body_productName = Some ''ring'', req_files = Some [ring_front, ring_side]\<rparr>"

definition ring_worn :: upload_file where
  "ring_worn = \<lparr>originalname = ''worn.webp'', mimetype = ''image/webp'',
                 buffer = [0x52, 0x49, 0x46, 0x46]\<rparr>"


definition ring_collection :: collection where
  "ring_collection =
     [\<lparr>productName = ''ring'',
       Jewellery = [''https://jewels.s3.amazonaws.com/products/1700-front.png'',
                    ''https://jewels.s3.amazonaws.com/products/1701-side.jpg'']\<rparr>]"

definition broken_request :: request where
  "broken_request = \<lparr>body_productName = Some ''ring'', req_files = Some [broken_file]\<rparr>"

definition eleven_parts :: "(string \<times> upload_file) list" where
  "eleven_parts = replicate 11 (''images'', ring_front)"


definition example_watermarked :: "upload_file \<Rightarrow> string \<Rightarrow> watermarked" where
  "example_watermarked f label =
     \<lparr>wm_source = buffer f,
      wm_composite =
        [\<lparr>ov_svg = ''<svg>'' @ text_element (301 / 2) 208 label,
          ov_width = 301, ov_height = 400, ov_top = 0, ov_left = 0\<rparr>],
      wm_format = JPEG 90\<rparr>"

definition ring_side_params :: s3_params where
  "ring_side_params =
     \<lparr>Bucket = Some ''jewels'', Key = ''products/1701-side.jpg'',
      Body = example_watermarked ring_side ''ring'', ContentType = ''image/jpeg''\<rparr>"

section \<open>Facts about the building blocks\<close>

subsection \<open>Joining the uploads\<close>

lemma promise_all_InrD: "promise_all rs = Inr xs \<Longrightarrow> rs = map Inr xs"
proof (induction rs arbitrary: xs)
  case Nil
  then show ?case by simp
next
  case (Cons r rs)
  show ?case
  proof (cases r)
    case (Inl e)
    with Cons.prems show ?thesis by simp
  next
    case (Inr x)
    with Cons.prems obtain ys where ys: "promise_all rs = Inr ys" and xs: "xs = x # ys"
      by (auto split: sum.splits)
    from Cons.IH [OF ys] Inr xs show ?thesis by simp
  qed
qed

lemma promise_all_all_Inr:
  "(\<forall>r \<in> set rs. \<exists>x. r = Inr x) \<Longrightarrow> \<exists>xs. promise_all rs = Inr xs"
proof (induction rs)
  case Nil
  then show ?case by simp
next
  case (Cons r rs)
  then obtain x xs where "r = Inr x" "promise_all rs = Inr xs" by auto
  then show ?case by simp
qed

subsection \<open>One file\<close>

lemma upload_one_Inr:
  assumes "fst (upload_one env name i f) = Inr loc"
  shows "\<exists>wm. addWatermarkAndSave (sharp_env env) (buffer f) name = Inr wm
           \<and> s3_upload env i (s3_params_of env i f wm) = Some loc
           \<and> snd (upload_one env name i f) = [S3Upload (s3_params_of env i f wm) (Some loc)]"
  using assms by (auto simp: upload_one_def Let_def split: sum.splits option.splits)

lemma upload_one_success:
  assumes "addWatermarkAndSave (sharp_env env) (buffer f) name = Inr wm"
    and "s3_upload env i (s3_params_of env i f wm) = Some loc"
  shows "fst (upload_one env name i f) = Inr loc"
  using assms by (simp add: upload_one_def)

lemma upload_one_rejected:
  assumes "S3Upload p None \<in> set (snd (upload_one env name i f))"
  shows "\<exists>e. fst (upload_one env name i f) = Inl e"
  using assms by (auto simp: upload_one_def Let_def split: sum.splits option.splits)

lemma upload_one_no_update: "MongoUpdate n us ok \<notin> set (snd (upload_one env name i f))"
  by (auto simp: upload_one_def Let_def split: sum.splits option.splits)

lemma addWatermarkAndSave_result:
  assumes "addWatermarkAndSave renv img label = Inr out"
  shows "\<exists>m template. sharp_metadata renv img = Some m \<and> read_template renv = Some template
           \<and> out = \<lparr>wm_source = img,
                     wm_composite = [\<lparr>ov_svg = updatedSvgString m label template,
                                      ov_width = width m, ov_height = height m,
                                      ov_top = 0, ov_left = 0\<rparr>],
                     wm_format = JPEG 90\<rparr>"
  using assms
  by (auto simp: addWatermarkAndSave_def Let_def split: option.splits if_splits)

lemma upload_one_event:
  assumes "S3Upload params outcome \<in> set (snd (upload_one env name i f))"
  shows "wm_format (Body params) = JPEG 90 \<and> wm_source (Body params) = buffer f
         \<and> ContentType params = mimetype f
         \<and> addWatermarkAndSave (sharp_env env) (buffer f) name = Inr (Body params)"
proof -
  from assms obtain wm where wm: "addWatermarkAndSave (sharp_env env) (buffer f) name = Inr wm"
    and params: "params = s3_params_of env i f wm"
    by (auto simp: upload_one_def Let_def split: sum.splits option.splits)
  from addWatermarkAndSave_result [OF wm] wm params show ?thesis
    by (auto simp: s3_params_of_def)
qed

subsection \<open>All files of a request\<close>

lemma returned_locations_append:
  "returned_locations (xs @ ys) = returned_locations xs @ returned_locations ys"
  by (induction xs rule: returned_locations.induct) auto

lemma returned_locations_uploads:
  "map fst (map (\<lambda>(i, f). upload_one env name i f) ifs) = map Inr urls
   \<Longrightarrow> returned_locations (concat (map snd (map (\<lambda>(i, f). upload_one env name i f) ifs))) = urls"
proof (induction ifs arbitrary: urls)
  case Nil
  then show ?case by simp
next
  case (Cons a ifs)
  obtain i f where a: "a = (i, f)" by (cases a)
  from Cons.prems a obtain loc rest where urls: "urls = loc # rest"
    and hd: "fst (upload_one env name i f) = Inr loc"
    and tl: "map fst (map (\<lambda>(i, f). upload_one env name i f) ifs) = map Inr rest"
    by (cases urls) auto
  from upload_one_Inr [OF hd] have "returned_locations (snd (upload_one env name i f)) = [loc]"
    by auto
  with Cons.IH [OF tl] a urls show ?case
    by (simp add: returned_locations_append)
qed

lemma upload_all_nth:
  "i < length fs \<Longrightarrow> upload_all env name fs ! i = upload_one env name i (fs ! i)"
  by (simp add: upload_all_def nth_enumerate_eq)

lemma length_upload_all [simp]: "length (upload_all env name fs) = length fs"
  by (simp add: upload_all_def)

lemma upload_all_locations:
  assumes "promise_all (map fst (upload_all env name fs)) = Inr urls"
  shows "returned_locations (concat (map snd (upload_all env name fs))) = urls"
    and "length urls = length fs"
    and "\<forall>i<length fs. fst (upload_one env name i (fs ! i)) = Inr (urls ! i)"
proof -
  have m: "map fst (upload_all env name fs) = map Inr urls"
    by (rule promise_all_InrD [OF assms])
  then show "returned_locations (concat (map snd (upload_all env name fs))) = urls"
    unfolding upload_all_def by (rule returned_locations_uploads)
  from m have "length (upload_all env name fs) = length urls"
    by (metis length_map)
  then show len: "length urls = length fs"
    by (simp add: upload_all_def)
  show "\<forall>i<length fs. fst (upload_one env name i (fs ! i)) = Inr (urls ! i)"
  proof (intro allI impI)
    fix i assume i: "i < length fs"
    have "map fst (upload_all env name fs) ! i = fst (upload_one env name i (fs ! i))"
      using i by (simp add: upload_all_def nth_enumerate_eq)
    moreover have "map Inr urls ! i = (Inr (urls ! i) :: failure + string)"
      using i len by simp
    ultimately show "fst (upload_one env name i (fs ! i)) = Inr (urls ! i)"
      using m by simp
  qed
qed

lemma upload_all_rejected:
  assumes "S3Upload p None \<in> set (concat (map snd (upload_all env name fs)))"
  shows "\<exists>e. Inl e \<in> set (map fst (upload_all env name fs))"
proof -
  from assms obtain i f where "(i, f) \<in> set (enumerate 0 fs)"
    and "S3Upload p None \<in> set (snd (upload_one env name i f))"
    by (auto simp: upload_all_def)
  moreover from this obtain e where "fst (upload_one env name i f) = Inl e"
    using upload_one_rejected by blast
  ultimately have "Inl e \<in> set (map fst (upload_all env name fs))"
    by (force simp: upload_all_def)
  then show ?thesis ..
qed

lemma upload_all_no_update:
  "MongoUpdate n us ok \<notin> set (concat (map snd (upload_all env name fs)))"
  by (auto simp: upload_all_def upload_one_no_update)

subsection \<open>The document store\<close>

lemma findOne_Some: "findOne name coll = Some p \<Longrightarrow> p \<in> set coll \<and> productName p = name"
  unfolding findOne_def by (auto simp: find_Some_iff)

lemma findOne_None: "findOne name coll = None \<longleftrightarrow> name \<notin> productName ` set coll"
  unfolding findOne_def by (auto simp: find_None_iff)

lemma findOneAndUpdate_images:
  "Jewellery (fst (findOneAndUpdate name urls coll)) = images_of name coll @ urls"
  by (induction coll) (auto simp: images_of_def findOne_def split: prod.splits)

lemma findOneAndUpdate_findOne:
  "findOne name (snd (findOneAndUpdate name urls coll)) = Some (fst (findOneAndUpdate name urls coll))"
  by (induction coll) (auto simp: findOne_def split: prod.splits)




lemma product_json_fields:
  "get_field ''productName'' (product_json p) = Some (JStr (productName p))"
  "get_field ''Jewellery'' (product_json p) = Some (JArr (map JStr (Jewellery p)))"
  "get_field ''images'' (product_json p) = None"
  by (simp_all add: get_field_def product_json_def)

lemma entries_Jewellery: "entries ''Jewellery'' (product_json p) = Some (length (Jewellery p))"
  by (simp add: entries_def get_field_def product_json_def array_length_def)

lemma entries_images: "entries ''images'' (product_json p) = None"
  by (simp add: entries_def get_field_def product_json_def)

subsection \<open>The upload handler\<close>

lemma status_error_response [simp]: "status (error_response code msg) = code"
  by (simp add: error_response_def)

lemma status_validation_error [simp]: "status validation_error = 400"
  by (simp add: validation_error_def)



lemma upload_handler_writes:
  assumes "upload_handler env coll req = (res, writes, coll')"
    and "body_productName req = Some name" and "name \<noteq> []"
    and "req_files req = Some fs"
  shows "fs = [] \<and> writes = []
         \<or> (\<exists>tail. writes = concat (map snd (upload_all env name fs)) @ tail
                \<and> (\<forall>e \<in> set tail. \<exists>n us ok. e = MongoUpdate n us ok))"
  using assms
  by (auto simp: upload_handler_def Let_def case_prod_beta split: sum.splits if_splits)




subsection \<open>Replacement and number printing\<close>

lemma find_first_Some: "find_first pat s = Some (pre, post) \<Longrightarrow> s = pre @ pat @ post"
proof (induction s arbitrary: pre)
  case Nil
  then show ?case by (simp split: if_splits)
next
  case (Cons c cs)
  show ?case
  proof (cases "starts_with pat (c # cs)")
    case True
    with Cons.prems have "pre = []" and "post = drop (length pat) (c # cs)" by simp_all
    moreover from True have "take (length pat) (c # cs) = pat" by (simp add: starts_with_def)
    ultimately show ?thesis by (metis append_Nil append_take_drop_id)
  next
    case False
    with Cons.prems obtain pre' where "find_first pat cs = Some (pre', post)" and "pre = c # pre'"
      by (auto split: option.splits)
    with Cons.IH show ?thesis by simp
  qed
qed

lemma get_substitution_pattern_free:
  "pattern_free r \<Longrightarrow> get_substitution matched pre post r = r"
  by (induction matched pre post r rule: get_substitution.induct) (auto simp: pattern_char_def)

lemma pattern_free_no_dollar: "CHR ''$'' \<notin> set xs \<Longrightarrow> pattern_free (xs @ ys) = pattern_free ys"
proof (induction xs)
  case Nil
  then show ?case by simp
next
  case (Cons c xs)
  then have "pattern_free (c # (xs @ ys)) = pattern_free (xs @ ys)"
    by (cases "xs @ ys") auto
  with Cons show ?case by simp
qed

lemma pattern_free_append:
  assumes "pattern_free xs" and "CHR ''$'' \<notin> set ys" and "ys = d # ds" and "\<not> pattern_char d"
  shows "pattern_free (xs @ ys)"
  using assms(1)
proof (induction xs rule: pattern_free.induct)
  case 1
  from pattern_free_no_dollar [OF assms(2), of "[]"] show ?case by simp
next
  case (2 c)
  from pattern_free_no_dollar [OF assms(2), of "[]"] have "pattern_free ys" by simp
  with assms(3,4) show ?case by simp
next
  case (3 c d rest)
  then show ?case by simp
qed

lemma digit_char_range: "digit_char d \<in> set ''0123456789''"
proof -
  have "d mod 10 < length ''0123456789''" by simp
  then show ?thesis unfolding digit_char_def by (rule nth_mem)
qed

lemma digit_char_not_dollar [simp]: "digit_char d \<noteq> CHR ''$''" "CHR ''$'' \<noteq> digit_char d"
  using digit_char_range [of d] by auto

lemma nat_to_string_no_dollar: "CHR ''$'' \<notin> set (nat_to_string n)"
proof (induction n rule: nat_to_string.induct)
  case (1 n)
  show ?case
  proof (cases "n < 10")
    case True
    then show ?thesis by (simp add: nat_to_string.simps [of n])
  next
    case False
    with 1 show ?thesis by (simp add: nat_to_string.simps [of n])
  qed
qed

lemma fraction_digits_no_dollar: "CHR ''$'' \<notin> set (fraction_digits k f)"
  by (induction k f rule: fraction_digits.induct) (simp_all add: Let_def)

lemma number_to_string_no_dollar: "CHR ''$'' \<notin> set (number_to_string q)"
  by (simp add: number_to_string_def Let_def nat_to_string_no_dollar fraction_digits_no_dollar)

lemma text_element_pattern_free:
  assumes "pattern_free label"
  shows "pattern_free (text_element x y label)"
proof -
  let ?close = "[CHR 0x0A] @ ''      </text>'' @ [CHR 0x0A] @ ''      </svg>''"
  let ?open = "''<text x=\"'' @ number_to_string x @ ''\" y=\"'' @ number_to_string (of_int y) @
     ''\" font-family=\"NotoSerifDisplay\" font-weight=\"bold\" font-size=\"120\" fill=\"white\" text-anchor=\"middle\">'' @
     [CHR 0x0A] @ ''        ''"
  have split: "text_element x y label = ?open @ (label @ ?close)"
    by (simp add: text_element_def)
  have tail_ok: "pattern_free (label @ ?close)"
    by (rule pattern_free_append [OF assms, where d = "CHR 0x0A" and ds = "''      </text>'' @ [CHR 0x0A] @ ''      </svg>''"])
       (simp_all add: pattern_char_def)
  have head_ok: "CHR ''$'' \<notin> set ?open"
    by (simp add: number_to_string_no_dollar)
  have "pattern_free (?open @ (label @ ?close)) = pattern_free (label @ ?close)"
    by (rule pattern_free_no_dollar [OF head_ok])
  with tail_ok show ?thesis
    unfolding split by blast
qed

lemma updatedSvgString_pattern_free:
  assumes "find_first ''</svg>'' (js_replace ''{{PRODUCT_NAME}}'' label template) = Some (pre, post)"
    and "pattern_free label"
  shows "updatedSvgString m label template =
           pre @ text_element (of_nat (width m) / 2) (int (height m) - 192) label @ post"
  using assms
  by (simp add: updatedSvgString_def js_replace_def [of "''</svg>''"] positionLeft_def
      positionBottom_def get_substitution_pattern_free text_element_pattern_free)

subsection \<open>The concrete environment\<close>

lemma example_render:
  "f \<in> {ring_front, ring_side, ring_worn} \<Longrightarrow> 
   addWatermarkAndSave example_sharp (buffer f) ''ring'' = Inr (example_watermarked f ''ring'')"
  by (auto; code_simp)


subsection \<open>The route and its middleware\<close>

lemma upload_handler_validation:
  assumes "body_productName req = None \<or> body_productName req = Some []
           \<or> req_files req = None \<or> req_files req = Some []"
  shows "upload_handler env coll req =
           (\<lparr>status = 400,
             json_body = JObj [(''error'', JStr ''Product name and at least one image are required.'')]\<rparr>,
            [], coll)"
  using assms
  by (auto simp: upload_handler_def validation_error_def error_response_def split: option.splits)

lemma multer_stage_handed_over:
  assumes "multer_stage rq = Inr (Some req)"
  shows "body_productName req = sent_productName rq"
    and "sent_files rq = [] \<Longrightarrow> req_files req = None \<or> req_files req = Some []"
  using assms
  by (auto simp: multer_stage_def sent_productName_def sent_files_def multer_array_def
      split: upload_request.splits option.splits sum.splits if_splits)

lemma multer_array_too_many:
  assumes "maxCount < length (filter (\<lambda>part. fst part = fieldname) parts)"
  shows "multer_array fieldname maxCount parts = Inl LIMIT_UNEXPECTED_FILE"
proof (cases "list_ex (\<lambda>part. fst part \<noteq> fieldname) parts")
  case True
  then show ?thesis by (simp add: multer_array_def)
next
  case False
  then have "filter (\<lambda>part. fst part = fieldname) parts = parts"
    by (auto simp: list_ex_iff filter_id_conv)
  with assms False show ?thesis by (simp add: multer_array_def)
qed

subsection \<open>The documents of a collection\<close>

lemma product_json_document: "product_json p = JObj (product_document p)"
  by (simp add: product_json_def product_document_def)









section \<open>Validation\<close>

text \<open>
  Claim C3, as the code has it. An upload request that the multipart middleware hands over
  to the handler with a body, and that carries no file or a missing or empty product name,
  is answered with status 400 and a body \<open>{ error }\<close>; no write to the object store or
  to the document store is issued and the collection is unchanged. A request that the
  middleware fails is answered by the default error handler with status 500, and a
  request that reaches the handler without a body is answered with status 500 and a body
  \<open>{ error }\<close> by the outermost \<^verbatim>\<open>catch\<close>; neither issues a write.
\<close>

theorem upload_route_validation:
  "(\<forall>req. multer_stage rq = Inr (Some req) \<longrightarrow>
      (sent_files rq = [] \<or> sent_productName rq = None \<or> sent_productName rq = Some []) \<longrightarrow>
      upload_route env coll rq =
        (Handled \<lparr>status = 400,
                  json_body = JObj [(''error'',
                    JStr ''Product name and at least one image are required.'')]\<rparr>,
         [], coll))
   \<and> (multer_stage rq = Inl LIMIT_UNEXPECTED_FILE \<longrightarrow>
        upload_route env coll rq = (DefaultErrorPage 500, [], coll))
   \<and> (multer_stage rq = Inr None \<longrightarrow>
        upload_route env coll rq =
          (Handled \<lparr>status = 500,
                    json_body = JObj [(''error'',
                      JStr ''Failed to upload and save images. Check server logs for details.'')]\<rparr>,
           [], coll))"
proof (intro conjI allI impI)
  fix req
  assume handed: "multer_stage rq = Inr (Some req)"
    and invalid: "sent_files rq = [] \<or> sent_productName rq = None \<or> sent_productName rq = Some []"
  from multer_stage_handed_over [OF handed] invalid
  have "body_productName req = None \<or> body_productName req = Some []
        \<or> req_files req = None \<or> req_files req = Some []"
    by auto
  from upload_handler_validation [OF this, of env coll] handed
  show "upload_route env coll rq =
          (Handled \<lparr>status = 400,
                    json_body = JObj [(''error'',
                      JStr ''Product name and at least one image are required.'')]\<rparr>,
           [], coll)"
    by (simp add: upload_route_def)
next
  assume "multer_stage rq = Inl LIMIT_UNEXPECTED_FILE"
  then show "upload_route env coll rq = (DefaultErrorPage 500, [], coll)"
    by (simp add: upload_route_def)
next
  assume "multer_stage rq = Inr None"
  then show "upload_route env coll rq =
          (Handled \<lparr>status = 500,
                    json_body = JObj [(''error'',
                      JStr ''Failed to upload and save images. Check server logs for details.'')]\<rparr>,
           [], coll)"
    by (simp add: upload_route_def error_response_def)
qed

theorem upload_route_validation_witness:
  "multer_stage (Multipart (Some ''ring'') []) = Inr (Some \<lparr>body_productName = Some ''ring'', req_files = Some []\<rparr>)
   \<and> sent_files (Multipart (Some ''ring'') []) = []
   \<and> upload_route example_env ring_collection (Multipart (Some ''ring'') []) =
        (Handled \<lparr>status = 400,
                  json_body = JObj [(''error'',
                    JStr ''Product name and at least one image are required.'')]\<rparr>,
         [], ring_collection)
   \<and> multer_stage (Multipart (Some ''ring'') [(''photo'', ring_front)]) = Inl LIMIT_UNEXPECTED_FILE
   \<and> upload_route example_env ring_collection (Multipart (Some ''ring'') [(''photo'', ring_front)]) =
        (DefaultErrorPage 500, [], ring_collection)
   \<and> multer_stage (NotMultipart None) = Inr None
   \<and> upload_route example_env ring_collection (NotMultipart None) =
        (Handled \<lparr>status = 500,
                  json_body = JObj [(''error'',
                    JStr ''Failed to upload and save images. Check server logs for details.'')]\<rparr>,
         [], ring_collection)"
proof -
  have a: "multer_stage (Multipart (Some ''ring'') []) =
             Inr (Some \<lparr>body_productName = Some ''ring'', req_files = Some []\<rparr>)"
    by (simp add: multer_stage_def multer_array_def)
  have b: "sent_files (Multipart (Some ''ring'') []) = []"
    by (simp add: sent_files_def)
  have c: "multer_stage (Multipart (Some ''ring'') [(''photo'', ring_front)]) = Inl LIMIT_UNEXPECTED_FILE"
    by (simp add: multer_stage_def multer_array_def)
  have d: "multer_stage (NotMultipart None) = Inr None"
    by (simp add: multer_stage_def)
  from upload_route_validation [of "Multipart (Some ''ring'') []" example_env ring_collection]
       upload_route_validation [of "Multipart (Some ''ring'') [(''photo'', ring_front)]" example_env ring_collection]
       upload_route_validation [of "NotMultipart None" example_env ring_collection]
       a b c d
  show ?thesis by simp
qed

text \<open>
  Claim C3 as stated, for every upload request, fails on two requests without a product
  name: one with eleven files under \<open>images\<close>, which the middleware fails, and one
  without a body, whose handler throws at its first statement. Both are answered with
  status 500 and not with 400.
\<close>

theorem missing_name_answered_with_500:
  "sent_productName (Multipart None eleven_parts) = None
   \<and> upload_route example_env [] (Multipart None eleven_parts) = (DefaultErrorPage 500, [], [])
   \<and> sent_productName (NotMultipart None) = None
   \<and> sent_files (NotMultipart None) = []
   \<and> upload_route example_env [] (NotMultipart None) =
        (Handled \<lparr>status = 500,
                  json_body = JObj [(''error'',
                    JStr ''Failed to upload and save images. Check server logs for details.'')]\<rparr>,
         [], [])"
  by code_simp

section \<open>The limit of ten files\<close>

text \<open>
  Claim C7, as the code has it. An upload request with more than 10 files under the field
  \<open>images\<close> is rejected as a whole: the middleware fails it, the handler does not run,
  no file is accepted, no write is issued, the collection is unchanged and the answer is
  the default error page with status 500.
\<close>

theorem upload_route_rejects_more_than_ten_files:
  assumes "10 < length (filter (\<lambda>part. fst part = ''images'') parts)"
  shows "upload_route env coll (Multipart name parts) = (DefaultErrorPage 500, [], coll)"
  using multer_array_too_many [OF assms]
  by (simp add: upload_route_def multer_stage_def)

theorem upload_route_rejects_more_than_ten_files_witness:
  "10 < length (filter (\<lambda>part. fst part = ''images'') eleven_parts)
   \<and> upload_route example_env ring_collection (Multipart (Some ''ring'') eleven_parts)
       = (DefaultErrorPage 500, [], ring_collection)"
proof -
  have many: "10 < length (filter (\<lambda>part. fst part = ''images'') eleven_parts)"
    by (simp add: eleven_parts_def)
  from upload_route_rejects_more_than_ten_files [OF many] many show ?thesis by simp
qed

text \<open>
  Claim C7 as stated has the first ten of the files accepted. On a request with eleven
  files under \<open>images\<close> for the product \<open>ring\<close> none is: no location is returned and
  no record of that name exists afterwards.
\<close>

theorem first_ten_files_not_accepted:
  "length eleven_parts = 11
   \<and> list_all (\<lambda>part. fst part = ''images'') eleven_parts
   \<and> upload_route example_env [] (Multipart (Some ''ring'') eleven_parts) = (DefaultErrorPage 500, [], [])
   \<and> returned_locations (fst (snd (upload_route example_env [] (Multipart (Some ''ring'') eleven_parts)))) = []
   \<and> findOne ''ring'' (snd (snd (upload_route example_env [] (Multipart (Some ''ring'') eleven_parts)))) = None"
  by code_simp

section \<open>All or nothing\<close>

text \<open>
  Claim C2. If the object store rejects one of the uploads of a request, the response is
  a server error with status 500, no update of the document store is issued, and the
  collection is left as it was.
\<close>

theorem upload_store_rejection_aborts:
  assumes run: "upload_handler env coll req = (res, writes, coll')"
    and rejected: "S3Upload params None \<in> set writes"
  shows "res = error_response 500 ''S3 upload failed. Check server logs for details.''
         \<and> status res = 500
         \<and> (\<forall>n us ok. MongoUpdate n us ok \<notin> set writes)
         \<and> coll' = coll"
proof -
  from run rejected obtain name fs where name: "body_productName req = Some name" "name \<noteq> []"
    and fs: "req_files req = Some fs" "fs \<noteq> []"
    by (auto simp: upload_handler_def split: option.splits if_splits)
  let ?uploads = "upload_all env name fs"
  let ?writes = "concat (map snd ?uploads)"
  show ?thesis
  proof (cases "promise_all (map fst ?uploads)")
    case (Inl e)
    with run name fs have "res = error_response 500 ''S3 upload failed. Check server logs for details.''"
      and "writes = ?writes" and "coll' = coll"
      by (auto simp: upload_handler_def Let_def)
    then show ?thesis using upload_all_no_update by simp
  next
    case (Inr urls)
    with run name fs have "set writes \<subseteq> set ?writes \<union> {MongoUpdate name urls True, MongoUpdate name urls False}"
      by (auto simp: upload_handler_def Let_def split: if_splits prod.splits)
    with rejected have "S3Upload params None \<in> set ?writes" by auto
    from upload_all_rejected [OF this] obtain e where "Inl e \<in> set (map fst ?uploads)" ..
    moreover from promise_all_InrD [OF Inr] have "map fst ?uploads = map Inr urls" .
    ultimately show ?thesis by auto
  qed
qed

theorem upload_store_rejection_aborts_witness:
  "S3Upload ring_side_params None \<in> set (fst (snd (upload_handler rejecting_env [] ring_request)))
   \<and> status (fst (upload_handler rejecting_env [] ring_request)) = 500
   \<and> (\<forall>n us ok. MongoUpdate n us ok \<notin> set (fst (snd (upload_handler rejecting_env [] ring_request))))
   \<and> snd (snd (upload_handler rejecting_env [] ring_request)) = []"
proof -
  have run: "upload_handler rejecting_env [] ring_request =
               (fst (upload_handler rejecting_env [] ring_request),
                fst (snd (upload_handler rejecting_env [] ring_request)),
                snd (snd (upload_handler rejecting_env [] ring_request)))"
    by simp
  have rejected:
    "S3Upload ring_side_params None \<in> set (fst (snd (upload_handler rejecting_env [] ring_request)))"
    by code_simp
  from upload_store_rejection_aborts [OF run rejected] rejected show ?thesis by blast
qed

section \<open>The response to a first upload\<close>

text \<open>
  Claim C1, as the code has it. A request with a non-empty product name that has no record
  yet and with N files, 1 \<le> N \<le> 10, each of which is watermarked and accepted by the
  object store, is answered with status 201 and a body \<open>{ message, product }\<close> when the
  document store accepts the update. \<open>product\<close> is the record now stored under that name;
  its location list is the field \<open>Jewellery\<close>, which has exactly N entries. The record
  has no field \<open>images\<close>.
\<close>

theorem upload_fresh_product_created:
  assumes name: "body_productName req = Some name" "name \<noteq> []"
    and fs: "req_files req = Some fs" "1 \<le> length fs" "length fs \<le> 10"
    and fresh: "findOne name coll = None"
    and stored: "\<forall>i<length fs. \<exists>wm loc.
                   addWatermarkAndSave (sharp_env env) (buffer (fs ! i)) name = Inr wm
                   \<and> s3_upload env i (s3_params_of env i (fs ! i) wm) = Some loc"
    and saved: "mongo_update_ok env"
  shows "\<exists>p. fst (upload_handler env coll req) =
               \<lparr>status = 201,
                 json_body = JObj [(''message'', JStr ''Images uploaded and saved successfully!''),
                                   (''product'', product_json p)]\<rparr>
             \<and> findOne name (snd (snd (upload_handler env coll req))) = Some p
             \<and> entries ''Jewellery'' (product_json p) = Some (length fs)
             \<and> entries ''images'' (product_json p) = None"
proof -
  have "\<forall>r \<in> set (map fst (upload_all env name fs)). \<exists>x. r = Inr x"
  proof
    fix r assume "r \<in> set (map fst (upload_all env name fs))"
    then obtain i where i: "i < length fs" and r: "r = fst (upload_all env name fs ! i)"
      by (auto simp: in_set_conv_nth)
    from stored i obtain wm loc
      where "addWatermarkAndSave (sharp_env env) (buffer (fs ! i)) name = Inr wm"
        and "s3_upload env i (s3_params_of env i (fs ! i) wm) = Some loc"
      by blast
    then have "fst (upload_one env name i (fs ! i)) = Inr loc" by (rule upload_one_success)
    with r i show "\<exists>x. r = Inr x" by (simp add: upload_all_nth)
  qed
  then obtain urls where urls: "promise_all (map fst (upload_all env name fs)) = Inr urls"
    using promise_all_all_Inr by blast
  have len: "length urls = length fs" by (rule upload_all_locations(2) [OF urls])
  let ?p = "fst (findOneAndUpdate name urls coll)"
  from name fs urls saved
  have run: "upload_handler env coll req =
               (\<lparr>status = 201,
                 json_body = JObj [(''message'', JStr ''Images uploaded and saved successfully!''),
                                   (''product'', product_json ?p)]\<rparr>,
                concat (map snd (upload_all env name fs)) @ [MongoUpdate name urls True],
                snd (findOneAndUpdate name urls coll))"
    by (auto simp: upload_handler_def Let_def split: prod.splits)
  have "Jewellery ?p = urls"
    using fresh by (simp add: findOneAndUpdate_images images_of_def)
  with len have "entries ''Jewellery'' (product_json ?p) = Some (length fs)"
    by (simp add: entries_Jewellery)
  with run show ?thesis
    by (intro exI [of _ ?p]) (simp add: findOneAndUpdate_findOne entries_images)
qed

theorem upload_fresh_product_created_witness:
  "findOne ''ring'' [] = None
   \<and> status (fst (upload_handler example_env [] ring_request)) = 201
   \<and> product_entries ''Jewellery'' (fst (upload_handler example_env [] ring_request)) = Some 2"
proof -
  have name: "body_productName ring_request = Some ''ring''" "''ring'' \<noteq> []"
    by (simp_all add: ring_request_def)
  have fs: "req_files ring_request = Some [ring_front, ring_side]"
    "1 \<le> length [ring_front, ring_side]" "length [ring_front, ring_side] \<le> 10"
    by (simp_all add: ring_request_def)
  have fresh: "findOne ''ring'' [] = None"
    by (simp add: findOne_def)
  have saved: "mongo_update_ok example_env"
    by (simp add: example_env_def)
  have stored: "\<forall>i<length [ring_front, ring_side]. \<exists>wm loc.
      addWatermarkAndSave (sharp_env example_env) (buffer ([ring_front, ring_side] ! i)) ''ring'' = Inr wm
      \<and> s3_upload example_env i (s3_params_of example_env i ([ring_front, ring_side] ! i) wm) = Some loc"
  proof (intro allI impI)
    fix i :: nat
    assume "i < length [ring_front, ring_side]"
    then have "[ring_front, ring_side] ! i \<in> {ring_front, ring_side, ring_worn}"
      by (cases i) auto
    then have "addWatermarkAndSave (sharp_env example_env) (buffer ([ring_front, ring_side] ! i)) ''ring''
               = Inr (example_watermarked ([ring_front, ring_side] ! i) ''ring'')"
      using example_render by (simp add: example_env_def)
    then show "\<exists>wm loc.
      addWatermarkAndSave (sharp_env example_env) (buffer ([ring_front, ring_side] ! i)) ''ring'' = Inr wm
      \<and> s3_upload example_env i (s3_params_of example_env i ([ring_front, ring_side] ! i) wm) = Some loc"
      by (simp add: example_env_def)
  qed
  from upload_fresh_product_created [OF name fs fresh stored saved]
  show ?thesis using fresh
    by (auto simp: product_entries_def get_field_def)
qed

text \<open>
  The sentence of claim C1 about \<open>product.images\<close> fails on the same run: two files were
  stored for a new product name, the answer is 201, and the product in the answer has no
  array \<open>images\<close> of two entries.
\<close>

theorem upload_response_without_images_field:
  "findOne ''ring'' [] = None
   \<and> status (fst (upload_handler example_env [] ring_request)) = 201
   \<and> product_entries ''images'' (fst (upload_handler example_env [] ring_request)) \<noteq> Some 2"
  by code_simp

section \<open>Accumulation\<close>



section \<open>The persisted records\<close>




section \<open>Fetching by name\<close>

text \<open>
  Claim C8, as the code has it. When the document store answers the query,
  \<^verbatim>\<open>GET /api/images/:productName\<close> responds 200 with the stored record of that name if
  there is one, the record's \<open>Jewellery\<close> field being the accumulated location list, and
  404 with a body \<open>{ error }\<close> if there is none. When the query fails it responds 500
  with a body \<open>{ error }\<close>.
\<close>

theorem fetch_by_name:
  "(mongo_find_ok env \<longrightarrow>
      (name \<in> productName ` set coll \<longrightarrow>
         status (get_handler env coll name) = 200
         \<and> (\<exists>p \<in> set coll. productName p = name
               \<and> findOne name coll = Some p
               \<and> json_body (get_handler env coll name) = product_json p)
         \<and> get_field ''Jewellery'' (json_body (get_handler env coll name))
             = Some (JArr (map JStr (images_of name coll))))
      \<and> (name \<notin> productName ` set coll \<longrightarrow>
           get_handler env coll name =
             \<lparr>status = 404, json_body = JObj [(''error'', JStr ''Product not found'')]\<rparr>))
   \<and> (\<not> mongo_find_ok env \<longrightarrow>
        get_handler env coll name =
          \<lparr>status = 500, json_body = JObj [(''error'', JStr ''Failed to fetch images'')]\<rparr>)"
proof (cases "mongo_find_ok env")
  case False
  then show ?thesis by (simp add: get_handler_def error_response_def)
next
  case up: True
  show ?thesis
  proof (cases "findOne name coll")
    case None
    with up show ?thesis
      by (simp add: get_handler_def error_response_def findOne_None [symmetric])
  next
    case (Some p)
    from findOne_Some [OF Some] have p: "p \<in> set coll" "productName p = name" by simp_all
    then have "name \<in> productName ` set coll" by force
    moreover from up Some have "get_handler env coll name = \<lparr>status = 200, json_body = product_json p\<rparr>"
      by (simp add: get_handler_def)
    ultimately show ?thesis using p Some up
      by (auto simp: images_of_def product_json_fields)
  qed
qed

theorem fetch_by_name_witness:
  "mongo_find_ok example_env
   \<and> ''ring'' \<in> productName ` set ring_collection
   \<and> ''necklace'' \<notin> productName ` set ring_collection
   \<and> status (get_handler example_env ring_collection ''ring'') = 200
   \<and> get_field ''Jewellery'' (json_body (get_handler example_env ring_collection ''ring''))
       = Some (JArr (map JStr (images_of ''ring'' ring_collection)))
   \<and> status (get_handler example_env ring_collection ''necklace'') = 404
   \<and> \<not> mongo_find_ok offline_env
   \<and> get_handler offline_env ring_collection ''ring'' =
        \<lparr>status = 500, json_body = JObj [(''error'', JStr ''Failed to fetch images'')]\<rparr>"
proof -
  have up: "mongo_find_ok example_env" by (simp add: example_env_def)
  have down: "\<not> mongo_find_ok offline_env" by (simp add: offline_env_def example_env_def)
  have there: "''ring'' \<in> productName ` set ring_collection" by (simp add: ring_collection_def)
  have missing: "''necklace'' \<notin> productName ` set ring_collection" by (simp add: ring_collection_def)
  from fetch_by_name [of example_env "''ring''" ring_collection]
       fetch_by_name [of example_env "''necklace''" ring_collection]
       fetch_by_name [of offline_env "''ring''" ring_collection]
       up down there missing
  show ?thesis by simp
qed

text \<open>
  Claim C8 as stated, for every request, fails when the query to the document store
  throws: a record named \<open>ring\<close> exists and the response is 500.
\<close>

theorem fetch_fails_when_store_is_down:
  "findOne ''ring'' ring_collection = Some (hd ring_collection)
   \<and> get_handler offline_env ring_collection ''ring'' =
       \<lparr>status = 500, json_body = JObj [(''error'', JStr ''Failed to fetch images'')]\<rparr>"
  by (simp add: findOne_def ring_collection_def get_handler_def offline_env_def example_env_def
      error_response_def)

section \<open>Error bodies\<close>

text \<open>
  Claim C9 asks for distinct error messages for a render failure and an upload failure.
  On the code, a request whose only file does not decode never reaches the object store,
  and is answered with the very body that a rejection by the object store produces.
\<close>

theorem render_failure_reported_as_upload_failure:
  "upload_one example_env ''ring'' 0 broken_file = (Inl UndecodableImage, [])
   \<and> fst (upload_one rejecting_env ''ring'' 1 ring_side) = Inl (S3UploadFailed ''side.jpg'')
   \<and> upload_handler example_env [] broken_request =
       (\<lparr>status = 500,
         json_body = JObj [(''error'', JStr ''S3 upload failed. Check server logs for details.'')]\<rparr>,
        [], [])
   \<and> fst (upload_handler rejecting_env [] ring_request) =
       \<lparr>status = 500,
        json_body = JObj [(''error'', JStr ''S3 upload failed. Check server logs for details.'')]\<rparr>"
  by code_simp

section \<open>What is stored in the object store\<close>

text \<open>
  Claim C10. Every object that an upload request sends to the object store is the output
  of the renderer for one of the request's files, encoded as JPEG at quality 90, and is
  sent with that file's own \<open>mimetype\<close> as its content type. Every file that is
  watermarked and stored has such an object among the writes, and if the file was not
  uploaded as \<open>image/jpeg\<close> then the content type sent with its JPEG bytes is not
  \<open>image/jpeg\<close> either.
\<close>

theorem stored_object_is_jpeg_under_original_type:
  assumes run: "upload_handler env coll req = (res, writes, coll')"
    and name: "body_productName req = Some name" "name \<noteq> []"
    and fs: "req_files req = Some fs"
  shows "(\<forall>params outcome. S3Upload params outcome \<in> set writes \<longrightarrow>
            (\<exists>i<length fs. wm_format (Body params) = JPEG 90
                \<and> wm_source (Body params) = buffer (fs ! i)
                \<and> ContentType params = mimetype (fs ! i)))
         \<and> (\<forall>i<length fs. \<forall>loc. fst (upload_one env name i (fs ! i)) = Inr loc \<longrightarrow>
              (\<exists>params. S3Upload params (Some loc) \<in> set writes
                 \<and> wm_format (Body params) = JPEG 90
                 \<and> wm_source (Body params) = buffer (fs ! i)
                 \<and> ContentType params = mimetype (fs ! i)
                 \<and> (mimetype (fs ! i) \<noteq> ''image/jpeg'' \<longrightarrow> ContentType params \<noteq> ''image/jpeg'')))"
proof (intro conjI allI impI)
  fix params outcome
  assume ev: "S3Upload params outcome \<in> set writes"
  with upload_handler_writes [OF run name fs]
  have "S3Upload params outcome \<in> set (concat (map snd (upload_all env name fs)))"
    by auto
  then obtain u where "u \<in> set (upload_all env name fs)" and u: "S3Upload params outcome \<in> set (snd u)"
    by auto
  then obtain i where i: "i < length fs" and "upload_all env name fs ! i = u"
    by (auto simp: in_set_conv_nth)
  with u have "S3Upload params outcome \<in> set (snd (upload_all env name fs ! i))"
    by simp
  with i
  have "S3Upload params outcome \<in> set (snd (upload_one env name i (fs ! i)))"
    by (simp add: upload_all_nth)
  from upload_one_event [OF this] i
  show "\<exists>i<length fs. wm_format (Body params) = JPEG 90
          \<and> wm_source (Body params) = buffer (fs ! i) \<and> ContentType params = mimetype (fs ! i)"
    by blast
next
  fix i loc
  assume i: "i < length fs" and ok: "fst (upload_one env name i (fs ! i)) = Inr loc"
  from upload_one_Inr [OF ok] obtain wm
    where ev: "snd (upload_one env name i (fs ! i)) = [S3Upload (s3_params_of env i (fs ! i) wm) (Some loc)]"
    by blast
  let ?p = "s3_params_of env i (fs ! i) wm"
  from i have "fs \<noteq> []" by auto
  with upload_handler_writes [OF run name fs] obtain tail
    where writes: "writes = concat (map snd (upload_all env name fs)) @ tail" by blast
  have "upload_all env name fs ! i \<in> set (upload_all env name fs)"
    using i by simp
  then have "upload_one env name i (fs ! i) \<in> set (upload_all env name fs)"
    using i by (simp add: upload_all_nth)
  moreover have "S3Upload ?p (Some loc) \<in> set (snd (upload_one env name i (fs ! i)))"
    using ev by simp
  ultimately have "S3Upload ?p (Some loc) \<in> set (concat (map snd (upload_all env name fs)))"
    by auto
  with writes have mem: "S3Upload ?p (Some loc) \<in> set writes" by simp
  have "S3Upload ?p (Some loc) \<in> set (snd (upload_one env name i (fs ! i)))"
    using ev by simp
  from upload_one_event [OF this] mem
  show "\<exists>params. S3Upload params (Some loc) \<in> set writes
          \<and> wm_format (Body params) = JPEG 90
          \<and> wm_source (Body params) = buffer (fs ! i)
          \<and> ContentType params = mimetype (fs ! i)
          \<and> (mimetype (fs ! i) \<noteq> ''image/jpeg'' \<longrightarrow> ContentType params \<noteq> ''image/jpeg'')"
    by auto
qed

theorem stored_object_is_jpeg_under_original_type_witness:
  "fst (upload_one example_env ''ring'' 0 ring_front) =
     Inr ''https://jewels.s3.amazonaws.com/products/1700-front.png''
   \<and> (\<exists>params.
         S3Upload params (Some ''https://jewels.s3.amazonaws.com/products/1700-front.png'')
           \<in> set (fst (snd (upload_handler example_env [] ring_request)))
         \<and> wm_format (Body params) = JPEG 90
         \<and> wm_source (Body params) = buffer ring_front
         \<and> ContentType params = ''image/png''
         \<and> ContentType params \<noteq> ''image/jpeg'')"
proof -
  let ?run = "upload_handler example_env [] ring_request"
  let ?loc = "''https://jewels.s3.amazonaws.com/products/1700-front.png''"
  have run: "?run = (fst ?run, fst (snd ?run), snd (snd ?run))" by simp
  have name: "body_productName ring_request = Some ''ring''" "''ring'' \<noteq> []"
    by (simp_all add: ring_request_def)
  have fs: "req_files ring_request = Some [ring_front, ring_side]"
    by (simp add: ring_request_def)
  have ok: "fst (upload_one example_env ''ring'' 0 ring_front) = Inr ?loc"
    by code_simp
  have png: "mimetype ring_front = ''image/png''"
    by (simp add: ring_front_def)
  from stored_object_is_jpeg_under_original_type [OF run name fs]
  have "\<forall>i<length [ring_front, ring_side]. \<forall>loc.
          fst (upload_one example_env ''ring'' i ([ring_front, ring_side] ! i)) = Inr loc \<longrightarrow>
          (\<exists>params. S3Upload params (Some loc) \<in> set (fst (snd ?run))
             \<and> wm_format (Body params) = JPEG 90
             \<and> wm_source (Body params) = buffer ([ring_front, ring_side] ! i)
             \<and> ContentType params = mimetype ([ring_front, ring_side] ! i)
             \<and> (mimetype ([ring_front, ring_side] ! i) \<noteq> ''image/jpeg'' \<longrightarrow>
                  ContentType params \<noteq> ''image/jpeg''))"
    by (rule conjunct2)
  from this [rule_format, of 0 ?loc] ok png show ?thesis
    by auto
qed

section \<open>The overlay\<close>

text \<open>
  What the renderer does with a label that is free of replacement patterns. Let the image
  decode to width W and height H, and let the template, once \<^verbatim>\<open>{{PRODUCT_NAME}}\<close> is
  substituted, contain the closing tag \<^verbatim>\<open></svg>\<close>. Whenever the renderer returns a
  buffer, the overlay is the template with a text element in place of the first closing
  tag, carrying \<open>x = W / 2\<close>, \<open>y = H - 192\<close>, the middle anchor and the label; the
  overlay is resized to W by H and composited at top 0 and left 0 over the source bytes,
  and the result is encoded as JPEG at quality 90.
\<close>

lemma watermark_overlay:
  assumes "addWatermarkAndSave renv img label = Inr out"
    and "sharp_metadata renv img = Some m" and "read_template renv = Some template"
    and "find_first ''</svg>'' (js_replace ''{{PRODUCT_NAME}}'' label template) = Some (pre, post)"
    and "pattern_free label"
  shows "out = \<lparr>wm_source = img,
                 wm_composite =
                   [\<lparr>ov_svg = pre @ text_element (of_nat (width m) / 2) (int (height m) - 192) label @ post,
                     ov_width = width m, ov_height = height m, ov_top = 0, ov_left = 0\<rparr>],
                 wm_format = JPEG 90\<rparr>"
  using addWatermarkAndSave_result [OF assms(1)] assms(2,3) updatedSvgString_pattern_free [OF assms(4,5)]
  by auto

lemma watermark_overlay_example:
  "addWatermarkAndSave example_sharp (buffer ring_front) ''ring $5'' =
     Inr \<lparr>wm_source = buffer ring_front,
          wm_composite =
            [\<lparr>ov_svg = ''<svg>'' @ text_element (of_nat 301 / 2) (int 400 - 192) ''ring $5'' @ [],
              ov_width = 301, ov_height = 400, ov_top = 0, ov_left = 0\<rparr>],
          wm_format = JPEG 90\<rparr>"
proof -
  let ?m = "\<lparr>width = 301, height = 400\<rparr>"
  obtain out where out: "addWatermarkAndSave example_sharp (buffer ring_front) ''ring $5'' = Inr out"
    by (simp add: addWatermarkAndSave_def example_sharp_def ring_front_def Let_def)
  have meta: "sharp_metadata example_sharp (buffer ring_front) = Some ?m"
    by (simp add: example_sharp_def ring_front_def)
  have template: "read_template example_sharp = Some ''<svg></svg>''"
    by (simp add: example_sharp_def)
  have closing: "find_first ''</svg>'' (js_replace ''{{PRODUCT_NAME}}'' ''ring $5'' ''<svg></svg>'')
                   = Some (''<svg>'', [])"
    by code_simp
  have plain: "pattern_free ''ring $5''"
    by (simp add: pattern_char_def)
  from watermark_overlay [OF out meta template closing plain] out
  show ?thesis by simp
qed

text \<open>
  Claim C6 says that the renderer places the label text, for every label, at \<open>x = W / 2\<close>
  and \<open>y = H - 192\<close>. The code means to: it writes the label into the text element. But
  the element is handed to \<^verbatim>\<open>String.prototype.replace\<close> as the replacement, where
  \<^verbatim>\<open>$$\<close> stands for one dollar sign. For the product name \<^verbatim>\<open>$$\<close> on a 301 by 400 image
  the overlay that is composited carries the text \<^verbatim>\<open>$\<close> at that position, and not the
  label.
\<close>

theorem dollar_label_is_rewritten:
  "addWatermarkAndSave example_sharp (buffer ring_front) ''$$''
     = Inr (example_watermarked ring_front ''$'')
   \<and> example_watermarked ring_front ''$'' \<noteq> example_watermarked ring_front ''$$''"
  by code_simp
end
